theory Spec2Isabelle
  imports Complex_Main
begin

section \<open>Text\<close>

text \<open>
  A Python \<^verbatim>\<open>str\<close> is a sequence of Unicode code points, so \<^verbatim>\<open>len\<close> and slicing count
  code points. A string is modelled as the list of its code points; \<open>lit\<close> turns an ASCII
  literal into one, and a letter outside ASCII is written by its code point
  (304 and 305 are the dotted capital and the dotless small i, 252 is u with diaeresis,
  351 is s with cedilla).
\<close>

type_synonym pystr = "nat list"

definition lit :: "string \<Rightarrow> pystr" where
  "lit s = map of_char s"

definition Normal :: pystr where
  "Normal = lit ''Normal''"

definition Anormal :: pystr where
  "Anormal = lit ''Anormal''"

definition Pazar_Ihlali :: pystr where
  "Pazar_Ihlali = lit ''Pazar '' @ [304] @ lit ''hlali''"

definition Ihale_Ihlali :: pystr where
  "Ihale_Ihlali = [304] @ lit ''hale '' @ [304] @ lit ''hlali''"

definition Fiyat_Ihlali :: pystr where
  "Fiyat_Ihlali = lit ''Fiyat '' @ [304] @ lit ''hlali''"

definition Bilgi_Ihlali :: pystr where
  "Bilgi_Ihlali = lit ''Bilgi '' @ [304] @ lit ''hlali''"

definition Analiz_Edilemedi :: pystr where
  "Analiz_Edilemedi = lit ''Analiz Edilemedi''"

definition Analiz_Hatasi :: pystr where
  "Analiz_Hatasi = lit ''Analiz Hatas'' @ [305]"

definition Yuksek :: pystr where
  "Yuksek = lit ''Y'' @ [252] @ lit ''ksek''"

definition Orta :: pystr where
  "Orta = lit ''Orta''"

definition Dusuk :: pystr where
  "Dusuk = lit ''D'' @ [252, 351, 252] @ lit ''k''"

section \<open>Label mapping\<close>

text \<open>
  Each endpoint builds its own \<^verbatim>\<open>label_mapping\<close> dictionary and reads it with
  \<^verbatim>\<open>label_mapping.get(prediction, prediction)\<close>. A dictionary literal is an association list
  (no key occurs twice in either); \<open>dict_get\<close> is \<^verbatim>\<open>d.get(k, default)\<close>.
\<close>

definition dict_get :: "('k \<times> 'v) list \<Rightarrow> 'k \<Rightarrow> 'v \<Rightarrow> 'v" where
  "dict_get d k dflt = (case map_of d k of None \<Rightarrow> dflt | Some v \<Rightarrow> v)"

text \<open>\<^verbatim>\<open>fetch_emails\<close>, lines 152-158.\<close>

definition label_mapping_batch :: "(pystr \<times> pystr) list" where
  "label_mapping_batch =
     [(lit ''LABEL_0'', Normal), (lit ''0'', Normal), (lit ''normal'', Normal),
      (lit ''LABEL_1'', Pazar_Ihlali), (lit ''1'', Pazar_Ihlali), (lit ''anormal'', Anormal),
      (lit ''LABEL_2'', Ihale_Ihlali), (lit ''2'', Ihale_Ihlali),
      (lit ''LABEL_3'', Fiyat_Ihlali), (lit ''3'', Fiyat_Ihlali),
      (lit ''LABEL_4'', Bilgi_Ihlali), (lit ''4'', Bilgi_Ihlali)]"

text \<open>\<^verbatim>\<open>analyze_email\<close>, lines 248-259.\<close>

definition label_mapping_single :: "(pystr \<times> pystr) list" where
  "label_mapping_single =
     [(lit ''LABEL_0'', Normal),
      (lit ''LABEL_1'', Pazar_Ihlali),
      (lit ''LABEL_2'', Ihale_Ihlali),
      (lit ''LABEL_3'', Fiyat_Ihlali),
      (lit ''LABEL_4'', Bilgi_Ihlali),
      (lit ''0'', Normal),
      (lit ''1'', Pazar_Ihlali),
      (lit ''2'', Ihale_Ihlali),
      (lit ''3'', Fiyat_Ihlali),
      (lit ''4'', Bilgi_Ihlali)]"

text \<open>Line 160 and line 262: \<^verbatim>\<open>anomaly_type = label_mapping.get(prediction, prediction)\<close>.\<close>

definition normalize_batch :: "pystr \<Rightarrow> pystr" where
  "normalize_batch prediction = dict_get label_mapping_batch prediction prediction"

definition normalize_single :: "pystr \<Rightarrow> pystr" where
  "normalize_single prediction = dict_get label_mapping_single prediction prediction"

section \<open>Confidence level\<close>

text \<open>
  \<^verbatim>\<open>analyze_email\<close>, lines 269-274. The score is a Python float; it is modelled by the real
  number it stands for, and the literals \<^verbatim>\<open>0.8\<close> and \<^verbatim>\<open>0.5\<close> by the reals of the same name.
\<close>

definition confidence_level :: "real \<Rightarrow> pystr" where
  "confidence_level confidence =
     (if confidence > 0.8 then Yuksek
      else if confidence > 0.5 then Orta
      else Dusuk)"

section \<open>Values exchanged with the collaborators\<close>

text \<open>
  An exception is a value. \<open>ValueError\<close> is what \<^verbatim>\<open>int(...)\<close> raises on a malformed query
  argument, \<open>ZeroDivisionError\<close> what \<^verbatim>\<open>//\<close> raises on a zero divisor, and \<open>Raised m\<close> is an
  exception raised inside a collaborator, with \<^verbatim>\<open>str(e) = m\<close>.
\<close>

datatype exn = ValueError | ZeroDivisionError | Raised pystr

text \<open>
  A fetched message is the dictionary \<^verbatim>\<open>fetch_multiple_emails\<close> returns for it: keys and
  values are strings, and any key may be absent.
\<close>

type_synonym raw_message = "(pystr \<times> pystr) list"

text \<open>
  The dictionary a model returns: the code reads the keys \<^verbatim>\<open>prediction\<close> (a string) and
  \<^verbatim>\<open>confidence\<close> (a float) with \<^verbatim>\<open>.get\<close>, so each may be absent (\<open>None\<close>);
  \<open>ra_other_keys\<close> lists the keys it has besides these two. \<^verbatim>\<open>if analysis_result:\<close> holds for
  a dictionary with at least one key, whichever it is.
\<close>

record raw_analysis =
  ra_prediction :: "pystr option"
  ra_confidence :: "real option"
  ra_other_keys :: "pystr list"

definition nonempty_analysis :: "raw_analysis \<Rightarrow> bool" where
  "nonempty_analysis d =
     (ra_prediction d \<noteq> None \<or> ra_confidence d \<noteq> None \<or> ra_other_keys d \<noteq> [])"

text \<open>
  The value stored under \<^verbatim>\<open>'confidence'\<close> is either the integer literal \<^verbatim>\<open>0\<close> of the fallback
  blocks or the float \<^verbatim>\<open>round(confidence * 100, 2)\<close>. Float multiplication and rounding are
  not computed here: \<open>Round_percent c\<close> stands for \<^verbatim>\<open>round(c * 100, 2)\<close> at the score \<open>c\<close>.
\<close>

datatype confidence_value = Int_zero | Round_percent real

text \<open>The dictionary stored under \<^verbatim>\<open>'analysis'\<close>; \<^verbatim>\<open>is_normal\<close> is \<^verbatim>\<open>None\<close>, \<^verbatim>\<open>True\<close> or \<^verbatim>\<open>False\<close>.\<close>

record analysis =
  a_status :: pystr
  a_is_normal :: "bool option"
  a_confidence :: confidence_value
  a_prediction :: pystr

text \<open>
  \<^verbatim>\<open>email_data\<close>: the seven keys the loop sets, and \<open>e_extra\<close> for the keys a translation
  overlay adds.
\<close>

record email_data =
  e_id :: int
  e_subject :: pystr
  e_sender :: pystr
  e_date :: pystr
  e_content :: pystr
  e_preview :: pystr
  e_analysis :: analysis
  e_extra :: "(pystr \<times> pystr) list"

text \<open>
  \<^verbatim>\<open>translate_email_content\<close> returns a dictionary that \<^verbatim>\<open>email_data.update\<close> lays over the
  entry. A dictionary may add keys and may replace any key already there, so the returned
  overlay is modelled by what \<^verbatim>\<open>update\<close> does with it: a function on entries.
\<close>

type_synonym overlay = "email_data \<Rightarrow> email_data"

section \<open>Collaborators\<close>

text \<open>
  The mail connector (\<^verbatim>\<open>MailFetcher\<close>), the model layer (\<^verbatim>\<open>ModelManager.analyze_email\<close>,
  \<^verbatim>\<open>MailAnalyzer.analyze_single_email\<close>) and the translation service are imported modules;
  their behaviour is a parameter. Every call either raises or returns. One request calls each
  connector method at most once, so one outcome per method describes a connector for a
  request.
\<close>

record 'i connector =
  connect :: "exn + bool"
  select_mailbox :: "pystr \<Rightarrow> exn + unit"
  search_emails :: "pystr \<Rightarrow> int \<Rightarrow> exn + 'i list"
  fetch_multiple_emails :: "'i list \<Rightarrow> int \<Rightarrow> exn + raw_message list"
  disconnect :: "exn + unit"

type_synonym model_manager = "pystr \<Rightarrow> pystr \<Rightarrow> pystr \<Rightarrow> exn + raw_analysis option"

type_synonym mail_analyzer = "pystr \<Rightarrow> pystr \<Rightarrow> exn + raw_analysis option"

type_synonym translation_service = "email_data \<Rightarrow> exn + overlay"

text \<open>The module's global handles; \<open>None\<close> is Python's \<^verbatim>\<open>None\<close> (not initialised).\<close>

record 'i services =
  mail_fetcher :: "'i connector option"
  mail_analyzer :: "mail_analyzer option"
  model_manager :: "model_manager option"
  translation_service :: "translation_service option"

text \<open>The calls made on the collaborators, in the order they are made.\<close>

datatype 'i event =
    Connect
  | Select_mailbox pystr
  | Search_emails pystr int
  | Fetch_multiple_emails "'i list" int
  | Disconnect
  | Model_analyze_email pystr pystr pystr
  | Translate_email_content email_data

section \<open>Requests and responses\<close>

text \<open>
  \<^verbatim>\<open>int(request.args.get('page', 1))\<close>: an absent argument is \<open>None\<close> and takes the default;
  a present one carries what \<^verbatim>\<open>int\<close> makes of its text, a number or a \<open>ValueError\<close>.
\<close>

record fetch_request =
  page_arg :: "(exn + int) option"
  per_page_arg :: "(exn + int) option"
  model_arg :: "pystr option"

definition int_arg :: "(exn + int) option \<Rightarrow> int \<Rightarrow> exn + int" where
  "int_arg a dflt = (case a of None \<Rightarrow> Inr dflt | Some r \<Rightarrow> r)"

text \<open>The texts of the bodies; an f-string is kept as its constructor and its arguments.\<close>

datatype error_text =
    Mail_fetcher_not_initialized
  | Failed_to_connect_to_email_server
  | Failed_to_fetch_emails exn
  | Mail_analyzer_not_initialized
  | Email_content_is_required
  | Failed_to_analyze_email
  | Failed_to_analyze_email_exn exn

datatype message_text =
    No_emails_found
  | Emails_fetched_and_analyzed nat
  | Email_analizi_tamamlandi pystr

text \<open>
  The envelope of \<^verbatim>\<open>/api/fetch-emails\<close>. The empty-result envelope has no \<^verbatim>\<open>start_index\<close> and
  no \<^verbatim>\<open>end_index\<close> key.
\<close>

record envelope =
  r_emails :: "email_data list"
  r_total_emails :: int
  r_current_page :: int
  r_total_pages :: int
  r_per_page :: int
  r_start_index :: "int option"
  r_end_index :: "int option"
  r_message :: message_text

text \<open>The body of \<^verbatim>\<open>/api/analyze-email\<close>.\<close>

record single_result =
  s_status :: pystr
  s_is_normal :: bool
  s_confidence :: confidence_value
  s_confidence_level :: pystr
  s_prediction :: pystr
  s_analysis_time :: pystr
  s_message :: message_text

datatype body = Error_body error_text | Page_body envelope | Analysis_body single_result

text \<open>A response is a body and an HTTP status; \<^verbatim>\<open>return jsonify(...)\<close> alone is status 200.\<close>

type_synonym response = "body \<times> nat"

section \<open>Python arithmetic and slicing\<close>

text \<open>
  \<^verbatim>\<open>xs[start:stop]\<close>: a negative index counts from the end, and both indices are clamped to
  the list. Floor division \<^verbatim>\<open>//\<close> on integers is \<open>div\<close> on \<open>int\<close> for a nonzero divisor.
\<close>

definition py_slice :: "'a list \<Rightarrow> int \<Rightarrow> int \<Rightarrow> 'a list" where
  "py_slice xs start stop =
     (let n = int (length xs);
          lo = (if start < 0 then max (start + n) 0 else min start n);
          hi = (if stop < 0 then max (stop + n) 0 else min stop n)
      in take (nat (hi - lo)) (drop (nat lo) xs))"

section \<open>Pagination\<close>

text \<open>
  \<^verbatim>\<open>fetch_emails\<close>, lines 109-116: the values computed between the search and the fetch.
  \<^verbatim>\<open>per_page = 0\<close> raises at line 110.
\<close>

record 'i page_slice =
  p_total_emails :: int
  p_total_pages :: int
  p_start_idx :: int
  p_end_idx :: int
  p_page_email_ids :: "'i list"

definition paginate :: "'i list \<Rightarrow> int \<Rightarrow> int \<Rightarrow> exn + 'i page_slice" where
  "paginate email_ids page per_page =
     (let total_emails = int (length email_ids)
      in if per_page = 0 then Inl ZeroDivisionError
         else
           let total_pages = (total_emails + per_page - 1) div per_page;
               start_idx = (page - 1) * per_page;
               end_idx = start_idx + per_page;
               reversed_email_ids = rev email_ids;
               page_email_ids = py_slice reversed_email_ids start_idx end_idx
           in Inr \<lparr>p_total_emails = total_emails, p_total_pages = total_pages,
                    p_start_idx = start_idx, p_end_idx = end_idx,
                    p_page_email_ids = page_email_ids\<rparr>)"

section \<open>The per-message analysis\<close>

text \<open>
  \<^verbatim>\<open>fetch_emails\<close>, lines 148-173: the block built from a truthy \<^verbatim>\<open>analysis_result\<close>.
\<close>

definition analysis_of_result :: "raw_analysis \<Rightarrow> analysis" where
  "analysis_of_result analysis_result =
     (let prediction = (case ra_prediction analysis_result of
                          None \<Rightarrow> lit ''UNKNOWN'' | Some p \<Rightarrow> p);
          confidence = (case ra_confidence analysis_result of None \<Rightarrow> 0 | Some c \<Rightarrow> c);
          anomaly_type = normalize_batch prediction;
          is_normal = (anomaly_type = Normal)
      in \<lparr>a_status = anomaly_type, a_is_normal = Some is_normal,
          a_confidence = Round_percent confidence, a_prediction = prediction\<rparr>)"

text \<open>The three literal blocks of lines 175-180, 183-188 and 190-195.\<close>

definition block_unknown :: analysis where
  "block_unknown = \<lparr>a_status = Analiz_Edilemedi, a_is_normal = None, a_confidence = Int_zero,
                     a_prediction = lit ''UNKNOWN''\<rparr>"

definition block_error :: analysis where
  "block_error = \<lparr>a_status = Analiz_Hatasi, a_is_normal = None, a_confidence = Int_zero,
                   a_prediction = lit ''ERROR''\<rparr>"

definition block_no_analyzer :: analysis where
  "block_no_analyzer = \<lparr>a_status = Analiz_Edilemedi, a_is_normal = None, a_confidence = Int_zero,
                         a_prediction = lit ''NO_ANALYZER''\<rparr>"

text \<open>\<^verbatim>\<open>if email.get('content'):\<close> holds for a present, non-empty string.\<close>

definition has_content :: "raw_message \<Rightarrow> bool" where
  "has_content email =
     (case map_of email (lit ''content'') of None \<Rightarrow> False | Some c \<Rightarrow> c \<noteq> [])"

text \<open>
  Lines 136-195: the value stored under \<^verbatim>\<open>'analysis'\<close> and the calls made on the model layer.
  With \<^verbatim>\<open>model_manager\<close> unset, \<^verbatim>\<open>analysis_result\<close> stays \<^verbatim>\<open>None\<close>.
\<close>

definition analyze_message :: "'i services \<Rightarrow> pystr \<Rightarrow> raw_message \<Rightarrow> analysis \<times> 'i event list" where
  "analyze_message svc selected_model email =
     (if has_content email then
        (case model_manager svc of
           None \<Rightarrow> (block_unknown, [])
         | Some mm \<Rightarrow>
             (let content = dict_get email (lit ''content'') [];
                  subject = dict_get email (lit ''subject'') [];
                  called = [Model_analyze_email content subject selected_model]
              in case mm content subject selected_model of
                   Inl analysis_error \<Rightarrow> (block_error, called)
                 | Inr None \<Rightarrow> (block_unknown, called)
                 | Inr (Some analysis_result) \<Rightarrow>
                     if nonempty_analysis analysis_result
                     then (analysis_of_result analysis_result, called)
                     else (block_unknown, called)))
      else (block_no_analyzer, []))"

text \<open>
  Lines 198-203: a translation that raises is logged and leaves the entry as it is.
\<close>

definition translate_message :: "'i services \<Rightarrow> email_data \<Rightarrow> email_data \<times> 'i event list" where
  "translate_message svc email_data =
     (case translation_service svc of
        None \<Rightarrow> (email_data, [])
      | Some ts \<Rightarrow>
          (case ts email_data of
             Inl translation_error \<Rightarrow> (email_data, [Translate_email_content email_data])
           | Inr translated_email \<Rightarrow>
               (translated_email email_data, [Translate_email_content email_data])))"

text \<open>Lines 126-203: the body of the loop for the message at offset \<open>i\<close>.\<close>

definition format_email ::
  "'i services \<Rightarrow> pystr \<Rightarrow> int \<Rightarrow> nat \<Rightarrow> raw_message \<Rightarrow> email_data \<times> 'i event list" where
  "format_email svc selected_model start_idx i email =
     (let content = dict_get email (lit ''content'') [];
          (block, model_calls) = analyze_message svc selected_model email;
          email_data =
            \<lparr>e_id = start_idx + int i,
             e_subject = dict_get email (lit ''subject'') (lit ''No Subject''),
             e_sender = dict_get email (lit ''sender'') (lit ''Unknown Sender''),
             e_date = dict_get email (lit ''date'') (lit ''Unknown Date''),
             e_content = content,
             e_preview = (if length content > 150 then take 150 content @ lit ''...''
                          else content),
             e_analysis = block,
             e_extra = []\<rparr>;
          (translated, translation_calls) = translate_message svc email_data
      in (translated, model_calls @ translation_calls))"

text \<open>
  Lines 124-205: \<^verbatim>\<open>for i, email in enumerate(emails)\<close>, appending to \<^verbatim>\<open>formatted_emails\<close>.
\<close>

fun format_emails ::
  "'i services \<Rightarrow> pystr \<Rightarrow> int \<Rightarrow> nat \<Rightarrow> raw_message list \<Rightarrow> email_data list \<Rightarrow>
   'i event list \<Rightarrow> email_data list \<times> 'i event list" where
  "format_emails svc selected_model start_idx i [] formatted_emails tr = (formatted_emails, tr)"
| "format_emails svc selected_model start_idx i (email # rest) formatted_emails tr =
     (case format_email svc selected_model start_idx i email of
        (email_data, calls) \<Rightarrow>
          format_emails svc selected_model start_idx (Suc i) rest
            (formatted_emails @ [email_data]) (tr @ calls))"

section \<open>GET /api/fetch-emails\<close>

definition failed_fetch :: "exn \<Rightarrow> response" where
  "failed_fetch e = (Error_body (Failed_to_fetch_emails e), 500)"

text \<open>
  Lines 97-216, entered with the ids the search returned and the calls made so far. An
  exception leaves through the handler of line 218, which answers 500 and calls nothing.
\<close>

definition respond_page ::
  "'i services \<Rightarrow> 'i connector \<Rightarrow> int \<Rightarrow> int \<Rightarrow> pystr \<Rightarrow> 'i list \<Rightarrow> 'i event list \<Rightarrow>
   response \<times> 'i event list" where
  "respond_page svc mf page per_page selected_model email_ids tr =
     (if email_ids = [] then
        (case disconnect mf of
           Inl e \<Rightarrow> (failed_fetch e, tr @ [Disconnect])
         | Inr _ \<Rightarrow>
             ((Page_body \<lparr>r_emails = [], r_total_emails = 0, r_current_page = page,
                          r_total_pages = 0, r_per_page = per_page, r_start_index = None,
                          r_end_index = None, r_message = No_emails_found\<rparr>, 200),
              tr @ [Disconnect]))
      else
        (case paginate email_ids page per_page of
           Inl e \<Rightarrow> (failed_fetch e, tr)
         | Inr pg \<Rightarrow>
             (case fetch_multiple_emails mf (p_page_email_ids pg) per_page of
                Inl e \<Rightarrow>
                  (failed_fetch e, tr @ [Fetch_multiple_emails (p_page_email_ids pg) per_page])
              | Inr emails \<Rightarrow>
                  (case disconnect mf of
                     Inl e \<Rightarrow>
                       (failed_fetch e,
                        tr @ [Fetch_multiple_emails (p_page_email_ids pg) per_page, Disconnect])
                   | Inr _ \<Rightarrow>
                       (case format_emails svc selected_model (p_start_idx pg) 0 emails []
                               (tr @ [Fetch_multiple_emails (p_page_email_ids pg) per_page,
                                      Disconnect]) of
                          (formatted_emails, tr') \<Rightarrow>
                            ((Page_body
                                \<lparr>r_emails = formatted_emails,
                                 r_total_emails = p_total_emails pg,
                                 r_current_page = page,
                                 r_total_pages = p_total_pages pg,
                                 r_per_page = per_page,
                                 r_start_index = Some (p_start_idx pg + 1),
                                 r_end_index =
                                   Some (min (p_start_idx pg + per_page) (p_total_emails pg)),
                                 r_message =
                                   Emails_fetched_and_analyzed (length formatted_emails)\<rparr>,
                              200), tr'))))))"

text \<open>Lines 78-95, then \<open>respond_page\<close>.\<close>

definition fetch_emails :: "'i services \<Rightarrow> fetch_request \<Rightarrow> response \<times> 'i event list" where
  "fetch_emails svc req =
     (case mail_fetcher svc of
        None \<Rightarrow> ((Error_body Mail_fetcher_not_initialized, 500), [])
      | Some mf \<Rightarrow>
          (case int_arg (page_arg req) 1 of
             Inl e \<Rightarrow> (failed_fetch e, [])
           | Inr page \<Rightarrow>
               (case int_arg (per_page_arg req) 10 of
                  Inl e \<Rightarrow> (failed_fetch e, [])
                | Inr per_page \<Rightarrow>
                    (let selected_model =
                           (case model_arg req of None \<Rightarrow> lit ''transformer'' | Some m \<Rightarrow> m)
                     in case connect mf of
                          Inl e \<Rightarrow> (failed_fetch e, [Connect])
                        | Inr did_connect \<Rightarrow>
                            if \<not> did_connect
                            then ((Error_body Failed_to_connect_to_email_server, 500), [Connect])
                            else
                              (case select_mailbox mf (lit ''INBOX'') of
                                 Inl e \<Rightarrow>
                                   (failed_fetch e, [Connect, Select_mailbox (lit ''INBOX'')])
                               | Inr _ \<Rightarrow>
                                   (case search_emails mf (lit ''ALL'') 30 of
                                      Inl e \<Rightarrow>
                                        (failed_fetch e,
                                         [Connect, Select_mailbox (lit ''INBOX''),
                                          Search_emails (lit ''ALL'') 30])
                                    | Inr email_ids \<Rightarrow>
                                        respond_page svc mf page per_page selected_model email_ids
                                          [Connect, Select_mailbox (lit ''INBOX''),
                                           Search_emails (lit ''ALL'') 30]))))))"

section \<open>POST /api/analyze-email\<close>

definition failed_analyze :: "exn \<Rightarrow> response" where
  "failed_analyze e = (Error_body (Failed_to_analyze_email_exn e), 500)"

text \<open>
  Lines 226-289. \<open>json\<close> is what \<^verbatim>\<open>request.get_json()\<close> gives: an exception, \<^verbatim>\<open>None\<close>, or a
  dictionary of strings; \<open>now\<close> is \<^verbatim>\<open>datetime.now().isoformat()\<close>. An empty dictionary has no
  \<^verbatim>\<open>content\<close> key, so \<^verbatim>\<open>not data or 'content' not in data\<close> is the absence of that key.
\<close>

definition analyze_email ::
  "'i services \<Rightarrow> exn + (pystr \<times> pystr) list option \<Rightarrow> pystr \<Rightarrow> response" where
  "analyze_email svc json now =
     (case mail_analyzer svc of
        None \<Rightarrow> (Error_body Mail_analyzer_not_initialized, 500)
      | Some ma \<Rightarrow>
          (case json of
             Inl e \<Rightarrow> failed_analyze e
           | Inr None \<Rightarrow> (Error_body Email_content_is_required, 400)
           | Inr (Some data) \<Rightarrow>
               (case map_of data (lit ''content'') of
                  None \<Rightarrow> (Error_body Email_content_is_required, 400)
                | Some email_content \<Rightarrow>
                    (let email_subject = dict_get data (lit ''subject'') []
                     in case ma email_content email_subject of
                          Inl e \<Rightarrow> failed_analyze e
                        | Inr None \<Rightarrow> (Error_body Failed_to_analyze_email, 500)
                        | Inr (Some analysis_result) \<Rightarrow>
                            if \<not> nonempty_analysis analysis_result
                            then (Error_body Failed_to_analyze_email, 500)
                            else
                              (let prediction = (case ra_prediction analysis_result of
                                                   None \<Rightarrow> lit ''UNKNOWN'' | Some p \<Rightarrow> p);
                                   confidence = (case ra_confidence analysis_result of
                                                   None \<Rightarrow> 0 | Some c \<Rightarrow> c);
                                   anomaly_type = normalize_single prediction;
                                   is_normal = (anomaly_type = Normal);
                                   status = anomaly_type
                               in (Analysis_body
                                     \<lparr>s_status = status, s_is_normal = is_normal,
                                      s_confidence = Round_percent confidence,
                                      s_confidence_level = confidence_level confidence,
                                      s_prediction = prediction, s_analysis_time = now,
                                      s_message = Email_analizi_tamamlandi status\<rparr>, 200))))))"

section \<open>The path that reaches the loop\<close>

text \<open>
  The request reaches the loop of line 125: the fetcher is initialised, both query arguments
  parse, no connector call raises, \<^verbatim>\<open>connect\<close> returns \<^verbatim>\<open>True\<close>, and the search finds ids.
\<close>

definition page_fetched ::
  "'i services \<Rightarrow> fetch_request \<Rightarrow> 'i connector \<Rightarrow> int \<Rightarrow> int \<Rightarrow> 'i list \<Rightarrow>
   'i page_slice \<Rightarrow> raw_message list \<Rightarrow> bool" where
  "page_fetched svc req mf page per_page email_ids pg emails \<longleftrightarrow>
     mail_fetcher svc = Some mf \<and>
     int_arg (page_arg req) 1 = Inr page \<and>
     int_arg (per_page_arg req) 10 = Inr per_page \<and>
     connect mf = Inr True \<and>
     select_mailbox mf (lit ''INBOX'') = Inr () \<and>
     search_emails mf (lit ''ALL'') 30 = Inr email_ids \<and>
     email_ids \<noteq> [] \<and>
     paginate email_ids page per_page = Inr pg \<and>
     fetch_multiple_emails mf (p_page_email_ids pg) per_page = Inr emails \<and>
     disconnect mf = Inr ()"

section \<open>Example inputs\<close>

text \<open>
  A connector that connects and disconnects normally and answers the three other calls as
  scripted; a model layer that raises on the content \<^verbatim>\<open>boom\<close>, returns \<^verbatim>\<open>None\<close> on \<^verbatim>\<open>silent\<close>,
  the token \<^verbatim>\<open>Analiz Hatasi\<close> on \<^verbatim>\<open>odd\<close>, the token \<^verbatim>\<open>normal\<close> on \<^verbatim>\<open>plain\<close>, a dictionary
  with the key \<^verbatim>\<open>model_used\<close> alone on \<^verbatim>\<open>bare\<close>, and \<^verbatim>\<open>LABEL_0\<close> otherwise; and a translation
  service that adds one key.
\<close>

definition scripted_connector ::
  "exn + unit \<Rightarrow> exn + nat list \<Rightarrow> exn + raw_message list \<Rightarrow> nat connector" where
  "scripted_connector selected found fetched =
     \<lparr>connect = Inr True,
      select_mailbox = (\<lambda>name. selected),
      search_emails = (\<lambda>criteria days_back. found),
      fetch_multiple_emails = (\<lambda>ids max_emails. fetched),
      disconnect = Inr ()\<rparr>"

definition example_model :: model_manager where
  "example_model content subject selected_model =
     (if content = lit ''boom'' then Inl (Raised (lit ''model failure''))
      else if content = lit ''silent'' then Inr None
      else if content = lit ''odd''
      then Inr (Some \<lparr>ra_prediction = Some Analiz_Hatasi, ra_confidence = Some 0.9,
                       ra_other_keys = []\<rparr>)
      else if content = lit ''plain''
      then Inr (Some \<lparr>ra_prediction = Some (lit ''normal''), ra_confidence = Some 0.9,
                       ra_other_keys = []\<rparr>)
      else if content = lit ''bare''
      then Inr (Some \<lparr>ra_prediction = None, ra_confidence = None,
                       ra_other_keys = [lit ''model_used'']\<rparr>)
      else Inr (Some \<lparr>ra_prediction = Some (lit ''LABEL_0''), ra_confidence = Some 0.9,
                       ra_other_keys = []\<rparr>))"

definition example_translation :: translation_service where
  "example_translation d =
     Inr (\<lambda>entry. entry\<lparr>e_extra := [(lit ''subject_tr'', e_subject d)]\<rparr>)"

definition example_services :: "nat connector \<Rightarrow> translation_service option \<Rightarrow> nat services" where
  "example_services mf ts =
     \<lparr>mail_fetcher = Some mf,
      mail_analyzer = Some (\<lambda>content subject. example_model content subject (lit ''transformer'')),
      model_manager = Some example_model,
      translation_service = ts\<rparr>"

definition message_with :: "string \<Rightarrow> raw_message" where
  "message_with text = [(lit ''subject'', lit ''Teklif''), (lit ''content'', lit text)]"

definition plain_request :: fetch_request where
  "plain_request = \<lparr>page_arg = None, per_page_arg = None, model_arg = None\<rparr>"

definition zero_per_page_request :: fetch_request where
  "zero_per_page_request = \<lparr>page_arg = None, per_page_arg = Some (Inr 0), model_arg = None\<rparr>"

definition ten_ids :: "nat list" where
  "ten_ids = [1, 2, 3, 4, 5, 6, 7, 8, 9, 10]"

definition second_page_request :: fetch_request where
  "second_page_request =
     \<lparr>page_arg = Some (Inr 2), per_page_arg = Some (Inr 2), model_arg = Some (lit ''svm'')\<rparr>"

definition three_messages :: "raw_message list" where
  "three_messages = [message_with ''boom'', message_with ''silent'', message_with ''hi'']"

section \<open>Facts about the literals and the two tables\<close>

lemmas text_defs = lit_def Normal_def Anormal_def Pazar_Ihlali_def Ihale_Ihlali_def
  Fiyat_Ihlali_def Bilgi_Ihlali_def Analiz_Edilemedi_def Analiz_Hatasi_def Yuksek_def Orta_def
  Dusuk_def

lemma level_distinct:
  "Yuksek \<noteq> Orta" "Yuksek \<noteq> Dusuk" "Orta \<noteq> Dusuk"
  "Orta \<noteq> Yuksek" "Dusuk \<noteq> Yuksek" "Dusuk \<noteq> Orta"
  by (simp_all add: text_defs)

lemma normalize_batch_cases:
  "normalize_batch t =
     (if t = lit ''LABEL_0'' \<or> t = lit ''0'' \<or> t = lit ''normal'' then Normal
      else if t = lit ''LABEL_1'' \<or> t = lit ''1'' then Pazar_Ihlali
      else if t = lit ''anormal'' then Anormal
      else if t = lit ''LABEL_2'' \<or> t = lit ''2'' then Ihale_Ihlali
      else if t = lit ''LABEL_3'' \<or> t = lit ''3'' then Fiyat_Ihlali
      else if t = lit ''LABEL_4'' \<or> t = lit ''4'' then Bilgi_Ihlali
      else t)"
  by (simp add: normalize_batch_def dict_get_def label_mapping_batch_def text_defs)

lemma normalize_single_cases:
  "normalize_single t =
     (if t = lit ''LABEL_0'' \<or> t = lit ''0'' then Normal
      else if t = lit ''LABEL_1'' \<or> t = lit ''1'' then Pazar_Ihlali
      else if t = lit ''LABEL_2'' \<or> t = lit ''2'' then Ihale_Ihlali
      else if t = lit ''LABEL_3'' \<or> t = lit ''3'' then Fiyat_Ihlali
      else if t = lit ''LABEL_4'' \<or> t = lit ''4'' then Bilgi_Ihlali
      else t)"
  by (simp add: normalize_single_def dict_get_def label_mapping_single_def text_defs)

lemma normalize_batch_idem: "normalize_batch (normalize_batch x) = normalize_batch x"
  by (simp add: normalize_batch_def dict_get_def label_mapping_batch_def text_defs)

lemma normalize_single_idem: "normalize_single (normalize_single x) = normalize_single x"
  by (simp add: normalize_single_def dict_get_def label_mapping_single_def text_defs)

lemma dict_get_absent: "k \<notin> fst ` set d \<Longrightarrow> dict_get d k dflt = dflt"
  by (simp add: dict_get_def map_of_eq_None_iff [THEN iffD2])

section \<open>The confidence tiers\<close>

text \<open>
  Claim C6. For every score \<open>s\<close> the level is \<open>Yuksek\<close> exactly when \<open>s > 0.8\<close>, \<open>Orta\<close>
  exactly when \<open>0.5 < s \<le> 0.8\<close> and \<open>Dusuk\<close> exactly when \<open>s \<le> 0.5\<close>; the scores 0.81, 0.8,
  0.6 and 0.50 get \<open>Yuksek\<close>, \<open>Orta\<close>, \<open>Orta\<close> and \<open>Dusuk\<close>.
\<close>

theorem confidence_level_tiers:
  "(confidence_level s = Yuksek \<longleftrightarrow> s > 0.8) \<and>
   (confidence_level s = Orta \<longleftrightarrow> 0.5 < s \<and> s \<le> 0.8) \<and>
   (confidence_level s = Dusuk \<longleftrightarrow> s \<le> 0.5) \<and>
   confidence_level 0.81 = Yuksek \<and> confidence_level 0.8 = Orta \<and>
   confidence_level 0.6 = Orta \<and> confidence_level 0.50 = Dusuk"
  by (simp add: confidence_level_def level_distinct)

theorem confidence_level_tiers_witness:
  "confidence_level 0.9 = Yuksek \<and> confidence_level 0.9 \<noteq> Orta \<and>
   confidence_level 0.9 \<noteq> Dusuk"
  using confidence_level_tiers [of "0.9"] by (simp add: level_distinct)

section \<open>The label normalizer\<close>

text \<open>
  Claim C7. Both normalizers are total functions; applying one twice gives what applying it
  once gives, for every token, and a token that is not a key of the table is returned
  unchanged.
\<close>

theorem label_normalizer_idempotent:
  "normalize_batch (normalize_batch x) = normalize_batch x \<and>
   normalize_single (normalize_single x) = normalize_single x \<and>
   (t \<notin> fst ` set label_mapping_batch \<longrightarrow> normalize_batch t = t) \<and>
   (t \<notin> fst ` set label_mapping_single \<longrightarrow> normalize_single t = t)"
proof -
  have "t \<notin> fst ` set label_mapping_batch \<Longrightarrow> normalize_batch t = t"
    unfolding normalize_batch_def by (rule dict_get_absent)
  moreover have "t \<notin> fst ` set label_mapping_single \<Longrightarrow> normalize_single t = t"
    unfolding normalize_single_def by (rule dict_get_absent)
  ultimately show ?thesis
    using normalize_batch_idem [of x] normalize_single_idem [of x] by blast
qed

theorem label_normalizer_idempotent_witness:
  "normalize_batch (normalize_batch (lit ''LABEL_1'')) = normalize_batch (lit ''LABEL_1'') \<and>
   normalize_batch (lit ''LABEL_1'') = Pazar_Ihlali \<and>
   lit ''SPAM'' \<notin> fst ` set label_mapping_batch \<and>
   lit ''SPAM'' \<notin> fst ` set label_mapping_single \<and>
   normalize_batch (lit ''SPAM'') = lit ''SPAM'' \<and>
   normalize_single (lit ''SPAM'') = lit ''SPAM''"
  using label_normalizer_idempotent [of "lit ''LABEL_1''" "lit ''SPAM''"]
  by (simp add: label_mapping_batch_def label_mapping_single_def normalize_batch_cases text_defs)

section \<open>The two tables compared\<close>

text \<open>
  The batch table has the keys of the single-email table and two more, \<^verbatim>\<open>normal\<close> and
  \<^verbatim>\<open>anormal\<close>; on every other token the two normalizers agree.
\<close>

lemma normalizers_agree_elsewhere:
  "(t \<noteq> lit ''normal'' \<and> t \<noteq> lit ''anormal'' \<longrightarrow> normalize_batch t = normalize_single t) \<and>
   normalize_batch (lit ''normal'') = Normal \<and>
   normalize_single (lit ''normal'') = lit ''normal'' \<and>
   normalize_batch (lit ''anormal'') = Anormal \<and>
   normalize_single (lit ''anormal'') = lit ''anormal''"
  by (simp add: normalize_batch_cases normalize_single_cases text_defs)

lemmas example_defs = scripted_connector_def example_model_def example_translation_def
  example_services_def message_with_def plain_request_def zero_per_page_request_def

section \<open>Facts about slicing and the loop\<close>

lemma py_slice_nonneg:
  assumes "0 \<le> start" "0 \<le> k"
  shows "py_slice xs start (start + k) = take (nat k) (drop (nat start) xs)"
proof (cases "start < int (length xs)")
  case True
  with assms have "nat (min (start + k) (int (length xs)) - start) =
                   min (nat k) (length xs - nat start)"
    by linarith
  moreover have "take (min (nat k) (length xs - nat start)) (drop (nat start) xs) =
                 take (nat k) (drop (nat start) xs)"
    by (simp add: min_def)
  ultimately show ?thesis
    using True assms by (simp add: py_slice_def Let_def)
next
  case False
  with assms show ?thesis
    by (simp add: py_slice_def Let_def)
qed

lemma floor_div_ceiling:
  fixes t p :: int
  assumes "0 < p"
  shows "(t + p - 1) div p = \<lceil>real_of_int t / real_of_int p\<rceil>"
proof -
  define q where "q = (t + p - 1) div p"
  define r where "r = (t + p - 1) mod p"
  have r: "0 \<le> r" "r < p" using assms by (simp_all add: r_def)
  have "q * p + r = t + p - 1" by (simp add: q_def r_def)
  then have t: "t = q * p - (p - 1 - r)" by (simp add: algebra_simps)
  have "t \<le> q * p" using t r by linarith
  then have "real_of_int t \<le> real_of_int (q * p)" by (simp only: of_int_le_iff)
  then have up: "real_of_int t / real_of_int p \<le> real_of_int q"
    using assms by (simp add: pos_divide_le_eq)
  have "q * p - p < t" using t r by linarith
  then have "real_of_int (q * p - p) < real_of_int t" by (simp only: of_int_less_iff)
  then have "(real_of_int q - 1) * real_of_int p < real_of_int t"
    by (simp add: algebra_simps)
  then have lo: "real_of_int q - 1 < real_of_int t / real_of_int p"
    using assms by (simp add: pos_less_divide_eq)
  show ?thesis unfolding q_def [symmetric] using up lo by (simp add: ceiling_unique)
qed

lemma format_emails_entries:
  "fst (format_emails svc sel s i emails acc tr) =
     acc @ map (\<lambda>k. fst (format_email svc sel s (i + k) (emails ! k))) [0..<length emails]"
proof (induction emails arbitrary: i acc tr)
  case Nil
  then show ?case by simp
next
  case (Cons email rest)
  show ?case
    by (simp add: Cons.IH split_beta map_upt_Suc del: upt_Suc)
qed

lemma format_emails_calls:
  "snd (format_emails svc sel s i emails acc tr) =
     tr @ concat (map (\<lambda>k. snd (format_email svc sel s (i + k) (emails ! k)))
                    [0..<length emails])"
proof (induction emails arbitrary: i acc tr)
  case Nil
  then show ?case by simp
next
  case (Cons email rest)
  show ?case
    by (simp add: Cons.IH split_beta map_upt_Suc del: upt_Suc)
qed

lemma translate_message_calls:
  "Model_analyze_email c s m \<notin> set (snd (translate_message svc d))"
  by (simp add: translate_message_def split: option.splits sum.splits)

section \<open>The connector session\<close>

text \<open>
  Claim C1 says that \<^verbatim>\<open>disconnect\<close> is called exactly once on every path that follows a
  successful \<^verbatim>\<open>connect\<close>. The handler of line 218 does not call it. With a connector whose
  \<^verbatim>\<open>select_mailbox\<close> raises, the request ends with status 500 after \<open>Connect\<close> and
  \<open>Select_mailbox\<close> alone; with \<^verbatim>\<open>per_page=0\<close> and one id found, the division of line 110
  raises and the request ends with status 500 after \<open>Connect\<close>, \<open>Select_mailbox\<close> and
  \<open>Search_emails\<close> alone.
\<close>

theorem session_left_open_on_exception:
  "fetch_emails
     (example_services
        (scripted_connector (Inl (Raised (lit ''no inbox''))) (Inr [1]) (Inr [message_with ''hi'']))
        None)
     plain_request =
     (failed_fetch (Raised (lit ''no inbox'')), [Connect, Select_mailbox (lit ''INBOX'')]) \<and>
   fetch_emails
     (example_services (scripted_connector (Inr ()) (Inr [1]) (Inr [message_with ''hi''])) None)
     zero_per_page_request =
     (failed_fetch ZeroDivisionError,
      [Connect, Select_mailbox (lit ''INBOX''), Search_emails (lit ''ALL'') 30])"
  by (simp add: fetch_emails_def respond_page_def paginate_def int_arg_def example_defs)

section \<open>Pagination\<close>

text \<open>
  Claim C2. For at least one id, \<open>page \<ge> 1\<close> and \<open>per_page \<ge> 1\<close>, pagination raises nothing and
  selects, from the reversed ids, the \<open>per_page\<close> ids that follow the first
  \<open>(page - 1) * per_page\<close>, as many of them as exist; a page beyond the end selects nothing.
  The number of pages is the ceiling of the number of ids over \<open>per_page\<close>, and the number of
  selected ids is \<open>min per_page (max 0 (T - (page - 1) * per_page))\<close>.
\<close>

theorem paginate_page:
  assumes "1 \<le> length email_ids" "1 \<le> page" "1 \<le> per_page"
  shows "\<exists>pg. paginate email_ids page per_page = Inr pg \<and>
           p_page_email_ids pg =
             take (nat per_page) (drop (nat ((page - 1) * per_page)) (rev email_ids)) \<and>
           p_total_pages pg = \<lceil>real (length email_ids) / real_of_int per_page\<rceil> \<and>
           int (length (p_page_email_ids pg)) =
             min per_page (max 0 (int (length email_ids) - (page - 1) * per_page)) \<and>
           (int (length email_ids) \<le> (page - 1) * per_page \<longrightarrow> p_page_email_ids pg = [])"
proof -
  have s: "0 \<le> (page - 1) * per_page" using assms by simp
  have sl: "py_slice (rev email_ids) ((page - 1) * per_page) ((page - 1) * per_page + per_page) =
            take (nat per_page) (drop (nat ((page - 1) * per_page)) (rev email_ids))"
    using s assms(3) by (intro py_slice_nonneg) simp_all
  have tp: "(int (length email_ids) + per_page - 1) div per_page =
            \<lceil>real (length email_ids) / real_of_int per_page\<rceil>"
    using floor_div_ceiling [of per_page "int (length email_ids)"] assms(3) by simp
  have len: "int (length (take (nat per_page)
                     (drop (nat ((page - 1) * per_page)) (rev email_ids)))) =
             min per_page (max 0 (int (length email_ids) - (page - 1) * per_page))"
    using s assms(3) by (simp add: min_def max_def) linarith?
  show ?thesis
    using assms(3) s sl tp len by (simp add: paginate_def Let_def)
qed

theorem paginate_page_witness:
  "1 \<le> length ten_ids \<and> (1::int) \<le> 4 \<and> (1::int) \<le> 3 \<and>
   (\<exists>pg. paginate ten_ids 4 3 = Inr pg \<and> p_page_email_ids pg = [1] \<and> p_total_pages pg = 4 \<and>
      int (length (p_page_email_ids pg)) = 1)"
  using paginate_page [of ten_ids 4 3] by (simp add: ten_ids_def)

section \<open>Messages without content\<close>

text \<open>
  Claim C4. For a fetched message whose content is empty or absent, whatever the selected model
  and the services, the analysis block is \<^verbatim>\<open>Analiz Edilemedi\<close>, \<^verbatim>\<open>None\<close>, 0, \<^verbatim>\<open>NO_ANALYZER\<close>, and
  no call of the model layer is made for that message.
\<close>

theorem empty_content_not_analyzed:
  assumes "dict_get email (lit ''content'') [] = []"
  shows "analyze_message svc selected_model email =
           (\<lparr>a_status = Analiz_Edilemedi, a_is_normal = None, a_confidence = Int_zero,
             a_prediction = lit ''NO_ANALYZER''\<rparr>, []) \<and>
         Model_analyze_email c s m \<notin>
           set (snd (format_email svc selected_model start_idx i email))"
proof -
  have nc: "\<not> has_content email"
    using assms by (auto simp: has_content_def dict_get_def split: option.splits)
  then have am: "analyze_message svc selected_model email = (block_no_analyzer, [])"
    by (simp add: analyze_message_def)
  then show ?thesis
    by (simp add: format_email_def Let_def split_beta translate_message_calls
          block_no_analyzer_def)
qed

theorem empty_content_not_analyzed_witness:
  "dict_get (message_with '''') (lit ''content'') [] = [] \<and>
   analyze_message
     (example_services (scripted_connector (Inr ()) (Inr []) (Inr [])) (Some example_translation))
     (lit ''svm'') (message_with '''') =
     (\<lparr>a_status = Analiz_Edilemedi, a_is_normal = None, a_confidence = Int_zero,
       a_prediction = lit ''NO_ANALYZER''\<rparr>, []) \<and>
   Model_analyze_email [] (lit ''Teklif'') (lit ''svm'') \<notin>
     set (snd (format_email
       (example_services (scripted_connector (Inr ()) (Inr []) (Inr []))
          (Some example_translation))
       (lit ''svm'') 0 0 (message_with '''')))"
proof -
  have h: "dict_get (message_with '''') (lit ''content'') [] = []"
    by (simp add: dict_get_def message_with_def lit_def)
  show ?thesis
    using h empty_content_not_analyzed [OF h] by simp
qed

section \<open>An empty search\<close>

text \<open>
  Claim C5. When the search is reached and returns no id, and \<^verbatim>\<open>disconnect\<close> returns, the
  response has status 200 and the body has no emails, \<^verbatim>\<open>total_emails = 0\<close> and
  \<^verbatim>\<open>total_pages = 0\<close>; \<open>Disconnect\<close> is the last call made.
\<close>

theorem empty_search_gives_empty_page:
  assumes "mail_fetcher svc = Some mf"
    and "int_arg (page_arg req) 1 = Inr page"
    and "int_arg (per_page_arg req) 10 = Inr per_page"
    and "connect mf = Inr True"
    and "select_mailbox mf (lit ''INBOX'') = Inr ()"
    and "search_emails mf (lit ''ALL'') 30 = Inr []"
    and "disconnect mf = Inr ()"
  shows "fetch_emails svc req =
           ((Page_body \<lparr>r_emails = [], r_total_emails = 0, r_current_page = page,
                        r_total_pages = 0, r_per_page = per_page, r_start_index = None,
                        r_end_index = None, r_message = No_emails_found\<rparr>, 200),
            [Connect, Select_mailbox (lit ''INBOX''), Search_emails (lit ''ALL'') 30,
             Disconnect])"
  using assms by (simp add: fetch_emails_def respond_page_def)

theorem empty_search_gives_empty_page_witness:
  "fetch_emails (example_services (scripted_connector (Inr ()) (Inr []) (Inr [])) None)
     zero_per_page_request =
     ((Page_body \<lparr>r_emails = [], r_total_emails = 0, r_current_page = 1,
                  r_total_pages = 0, r_per_page = 0, r_start_index = None,
                  r_end_index = None, r_message = No_emails_found\<rparr>, 200),
      [Connect, Select_mailbox (lit ''INBOX''), Search_emails (lit ''ALL'') 30, Disconnect])"
  by (rule empty_search_gives_empty_page
        [where mf = "scripted_connector (Inr ()) (Inr []) (Inr [])"])
     (simp_all add: int_arg_def example_defs)

section \<open>Facts about the blocks and the fetched page\<close>

lemma computed_block:
  "a_is_normal (analysis_of_result r) = Some (a_status (analysis_of_result r) = Normal)"
  "a_status (analysis_of_result r) = normalize_batch (a_prediction (analysis_of_result r))"
  by (simp_all add: analysis_of_result_def Let_def)

lemma normalize_batch_fallback:
  "normalize_batch p \<in> {Analiz_Edilemedi, Analiz_Hatasi} \<longleftrightarrow>
   p \<in> {Analiz_Edilemedi, Analiz_Hatasi}"
  by (simp add: normalize_batch_def dict_get_def label_mapping_batch_def text_defs)

lemma computed_block_flags:
  assumes 4: "b = analysis_of_result r"
  shows "(a_is_normal b = Some True \<longleftrightarrow> a_status b = Normal) \<and>
     (a_is_normal b = None \<longleftrightarrow>
        a_status b \<in> {Analiz_Edilemedi, Analiz_Hatasi} \<and>
        a_prediction b \<notin> {Analiz_Edilemedi, Analiz_Hatasi})"
proof -
  have isn: "a_is_normal b = Some (a_status b = Normal)"
    unfolding 4 by (rule computed_block)
  have st: "a_status b = normalize_batch (a_prediction b)"
    unfolding 4 by (rule computed_block)
  have "normalize_batch (a_prediction b) \<in> {Analiz_Edilemedi, Analiz_Hatasi} \<longleftrightarrow>
            a_prediction b \<in> {Analiz_Edilemedi, Analiz_Hatasi}"
    by (rule normalize_batch_fallback)
  then have "\<not> (a_status b \<in> {Analiz_Edilemedi, Analiz_Hatasi} \<and>
                   a_prediction b \<notin> {Analiz_Edilemedi, Analiz_Hatasi})"
    unfolding st [symmetric] by blast
  then show ?thesis unfolding isn by simp
qed

lemma fallback_distinct:
  "Analiz_Edilemedi \<noteq> Normal" "Analiz_Hatasi \<noteq> Normal"
  "lit ''UNKNOWN'' \<noteq> Analiz_Edilemedi" "lit ''UNKNOWN'' \<noteq> Analiz_Hatasi"
  "lit ''ERROR'' \<noteq> Analiz_Edilemedi" "lit ''ERROR'' \<noteq> Analiz_Hatasi"
  "lit ''NO_ANALYZER'' \<noteq> Analiz_Edilemedi" "lit ''NO_ANALYZER'' \<noteq> Analiz_Hatasi"
  by (simp_all add: text_defs)

lemma normalize_single_fallback:
  "normalize_single p \<in> {Analiz_Edilemedi, Analiz_Hatasi} \<longleftrightarrow>
   p \<in> {Analiz_Edilemedi, Analiz_Hatasi}"
  by (simp add: normalize_single_def dict_get_def label_mapping_single_def text_defs)

lemma analyze_message_cases:
  "fst (analyze_message svc sel email) \<in> {block_unknown, block_error, block_no_analyzer} \<or>
   (\<exists>r. fst (analyze_message svc sel email) = analysis_of_result r)"
  by (auto simp: analyze_message_def Let_def split: option.splits sum.splits)

lemma fallback_block_flags:
  assumes "b \<in> {block_unknown, block_error, block_no_analyzer}"
  shows "(a_is_normal b = Some True \<longleftrightarrow> a_status b = Normal) \<and>
     (a_is_normal b = None \<longleftrightarrow>
        a_status b \<in> {Analiz_Edilemedi, Analiz_Hatasi} \<and>
        a_prediction b \<notin> {Analiz_Edilemedi, Analiz_Hatasi})"
proof -
  consider "b = block_unknown" | "b = block_error" | "b = block_no_analyzer"
    using assms by auto
  then show ?thesis
  proof cases
    case 1 then show ?thesis by (simp add: block_unknown_def fallback_distinct)
  next
    case 2 then show ?thesis by (simp add: block_error_def fallback_distinct)
  next
    case 3 then show ?thesis by (simp add: block_no_analyzer_def fallback_distinct)
  qed
qed

lemma analyze_email_body:
  assumes "analyze_email svc json now = (Analysis_body r, code)"
  shows "\<exists>p. s_status r = normalize_single p \<and> s_prediction r = p \<and>
             s_is_normal r = (normalize_single p = Normal)"
  using assms
  by (auto simp: analyze_email_def failed_analyze_def Let_def
        split: option.splits sum.splits if_splits)

lemma single_flags:
  assumes "analyze_email svc json now = (Analysis_body r, code)"
  shows "(s_is_normal r \<longleftrightarrow> s_status r = Normal) \<and>
      (s_status r \<in> {Analiz_Edilemedi, Analiz_Hatasi} \<longrightarrow> s_prediction r = s_status r)"
proof -
  from analyze_email_body [OF assms] obtain p where
    st: "s_status r = normalize_single p" and pr: "s_prediction r = p"
    and isn: "s_is_normal r = (normalize_single p = Normal)"
    by blast
  have "normalize_single p = p" if "normalize_single p \<in> {Analiz_Edilemedi, Analiz_Hatasi}"
  proof -
    have "p \<in> {Analiz_Edilemedi, Analiz_Hatasi}"
      using that normalize_single_fallback [of p] by blast
    then show ?thesis
      by (auto simp: normalize_single_def dict_get_def label_mapping_single_def text_defs)
  qed
  then show ?thesis unfolding st pr isn by auto
qed

lemma fetch_emails_fetched:
  assumes "page_fetched svc req mf page per_page email_ids pg emails"
  shows "\<exists>env tr. fetch_emails svc req = ((Page_body env, 200), tr) \<and>
           r_emails env =
             map (\<lambda>k. fst (format_email svc
                    (case model_arg req of None \<Rightarrow> lit ''transformer'' | Some m \<Rightarrow> m)
                    (p_start_idx pg) k (emails ! k))) [0..<length emails] \<and>
           r_start_index env = Some (p_start_idx pg + 1)"
  using assms unfolding page_fetched_def
  by (simp add: fetch_emails_def respond_page_def Let_def split_beta format_emails_entries)

lemma paginate_start_idx:
  "paginate email_ids page per_page = Inr pg \<Longrightarrow> p_start_idx pg = (page - 1) * per_page"
  by (auto simp: paginate_def Let_def split: if_splits)

lemma translate_message_keeps:
  assumes "\<forall>ts d ov. translation_service svc = Some ts \<and> ts d = Inr ov \<longrightarrow> f (ov d) = f d"
  shows "f (fst (translate_message svc d)) = f d"
  using assms by (auto simp: translate_message_def split: option.splits sum.splits)

lemma format_email_id:
  assumes "\<forall>ts d ov. translation_service svc = Some ts \<and> ts d = Inr ov \<longrightarrow> e_id (ov d) = e_id d"
  shows "e_id (fst (format_email svc sel start_idx i email)) = start_idx + int i"
  using translate_message_keeps [of svc e_id, OF assms]
  by (simp add: format_email_def Let_def split_beta)

lemma format_email_analysis:
  assumes "\<forall>ts d ov. translation_service svc = Some ts \<and> ts d = Inr ov \<longrightarrow>
             e_analysis (ov d) = e_analysis d"
  shows "e_analysis (fst (format_email svc sel start_idx i email)) =
         fst (analyze_message svc sel email)"
  using translate_message_keeps [of svc e_analysis, OF assms]
  by (simp add: format_email_def Let_def split_beta)

lemma analyze_message_truthy:
  assumes "has_content email" "model_manager svc = Some mm"
    and "mm (dict_get email (lit ''content'') []) (dict_get email (lit ''subject'') []) sel =
           Inr (Some res)"
    and "nonempty_analysis res"
  shows "fst (analyze_message svc sel email) = analysis_of_result res"
  using assms by (simp add: analyze_message_def Let_def)

lemma computed_block_prediction:
  "a_prediction (analysis_of_result res) =
     (case ra_prediction res of None \<Rightarrow> lit ''UNKNOWN'' | Some p \<Rightarrow> p)"
  by (simp add: analysis_of_result_def Let_def)

lemma fallback_block_null:
  assumes "b \<in> {block_unknown, block_error, block_no_analyzer}"
  shows "a_is_normal b = None"
  using assms by (auto simp: block_unknown_def block_error_def block_no_analyzer_def)

lemma null_only_in_fallback:
  assumes "b = fst (analyze_message svc sel email)"
  shows "a_is_normal b = None \<longleftrightarrow> b \<in> {block_unknown, block_error, block_no_analyzer}"
proof
  assume n: "a_is_normal b = None"
  from analyze_message_cases [of svc sel email] assms
  have "b \<in> {block_unknown, block_error, block_no_analyzer} \<or> (\<exists>r. b = analysis_of_result r)"
    by simp
  moreover have "b \<noteq> analysis_of_result r" for r
    using n computed_block(1) [of r] by auto
  ultimately show "b \<in> {block_unknown, block_error, block_no_analyzer}" by blast
next
  assume "b \<in> {block_unknown, block_error, block_no_analyzer}"
  then show "a_is_normal b = None" by (rule fallback_block_null)
qed

lemma analyze_email_truthy:
  assumes "mail_analyzer svc = Some ma" "json = Inr (Some data)"
    and "map_of data (lit ''content'') = Some c"
    and "ma c (dict_get data (lit ''subject'') []) = Inr (Some res)"
    and "nonempty_analysis res"
  shows "\<exists>r. analyze_email svc json now = (Analysis_body r, 200) \<and>
           s_prediction r = (case ra_prediction res of None \<Rightarrow> lit ''UNKNOWN'' | Some p \<Rightarrow> p) \<and>
           s_status r = normalize_single (s_prediction r) \<and>
           s_is_normal r = (s_status r = Normal)"
  using assms by (simp add: analyze_email_def Let_def)

section \<open>Failures of the model layer\<close>

text \<open>
  Claim C3. For a message with content: when the model layer raises, the analysis is
  \<^verbatim>\<open>Analiz Hatasi\<close>, \<^verbatim>\<open>None\<close>, 0, \<^verbatim>\<open>ERROR\<close>; when it returns \<^verbatim>\<open>None\<close> (or is not initialised),
  the analysis is \<^verbatim>\<open>Analiz Edilemedi\<close>, \<^verbatim>\<open>None\<close>, 0, \<^verbatim>\<open>UNKNOWN\<close>. Whatever the model layer
  and the translation service do, a request that reaches the loop answers 200 with one entry
  per fetched message, and entry \<open>j\<close> is what the loop body makes of message \<open>j\<close> alone, so a
  failure on one message changes no other entry. The analysis of an entry is the block of
  its message unless a translation overlay replaces the \<^verbatim>\<open>analysis\<close> key.
\<close>

theorem analysis_failure_is_contained:
  "(has_content email \<and> model_manager svc = Some mm \<and>
      mm (dict_get email (lit ''content'') []) (dict_get email (lit ''subject'') []) sel = Inl e \<longrightarrow>
      fst (analyze_message svc sel email) =
        \<lparr>a_status = Analiz_Hatasi, a_is_normal = None, a_confidence = Int_zero,
         a_prediction = lit ''ERROR''\<rparr>) \<and>
   (has_content email \<and>
      (model_manager svc = None \<or>
       model_manager svc = Some mm \<and>
       mm (dict_get email (lit ''content'') []) (dict_get email (lit ''subject'') []) sel =
         Inr None) \<longrightarrow>
      fst (analyze_message svc sel email) =
        \<lparr>a_status = Analiz_Edilemedi, a_is_normal = None, a_confidence = Int_zero,
         a_prediction = lit ''UNKNOWN''\<rparr>) \<and>
   (page_fetched svc req mf page per_page email_ids pg emails \<longrightarrow>
      (\<exists>env tr. fetch_emails svc req = ((Page_body env, 200), tr) \<and>
         length (r_emails env) = length emails \<and>
         (\<forall>j<length emails.
            r_emails env ! j =
              fst (format_email svc
                     (case model_arg req of None \<Rightarrow> lit ''transformer'' | Some m \<Rightarrow> m)
                     (p_start_idx pg) j (emails ! j))))) \<and>
   ((\<forall>ts d ov. translation_service svc = Some ts \<and> ts d = Inr ov \<longrightarrow>
        e_analysis (ov d) = e_analysis d) \<longrightarrow>
      e_analysis (fst (format_email svc sel start_idx i email)) =
        fst (analyze_message svc sel email))"
proof -
  have raised: "fst (analyze_message svc sel email) = block_error"
    if "has_content email" "model_manager svc = Some mm"
      "mm (dict_get email (lit ''content'') []) (dict_get email (lit ''subject'') []) sel = Inl e"
    using that by (simp add: analyze_message_def Let_def)
  have silent: "fst (analyze_message svc sel email) = block_unknown"
    if "has_content email"
      "model_manager svc = None \<or>
       model_manager svc = Some mm \<and>
       mm (dict_get email (lit ''content'') []) (dict_get email (lit ''subject'') []) sel =
         Inr None"
    using that by (auto simp: analyze_message_def Let_def)
  have page: "\<exists>env tr. fetch_emails svc req = ((Page_body env, 200), tr) \<and>
         length (r_emails env) = length emails \<and>
         (\<forall>j<length emails.
            r_emails env ! j =
              fst (format_email svc
                     (case model_arg req of None \<Rightarrow> lit ''transformer'' | Some m \<Rightarrow> m)
                     (p_start_idx pg) j (emails ! j)))"
    if h: "page_fetched svc req mf page per_page email_ids pg emails"
  proof -
    from fetch_emails_fetched [OF h] obtain env tr where
      "fetch_emails svc req = ((Page_body env, 200), tr)"
      "r_emails env =
         map (\<lambda>k. fst (format_email svc
                (case model_arg req of None \<Rightarrow> lit ''transformer'' | Some m \<Rightarrow> m)
                (p_start_idx pg) k (emails ! k))) [0..<length emails]"
      by blast
    then show ?thesis by simp
  qed
  show ?thesis
    using raised silent page format_email_analysis [of svc sel start_idx i email]
    unfolding block_error_def block_unknown_def by blast
qed

theorem analysis_failure_is_contained_witness:
  "\<exists>env tr.
     fetch_emails
       (example_services (scripted_connector (Inr ()) (Inr [1, 2, 3]) (Inr three_messages))
          (Some example_translation))
       plain_request = ((Page_body env, 200), tr) \<and>
     map e_analysis (r_emails env) =
       [\<lparr>a_status = Analiz_Hatasi, a_is_normal = None, a_confidence = Int_zero,
         a_prediction = lit ''ERROR''\<rparr>,
        \<lparr>a_status = Analiz_Edilemedi, a_is_normal = None, a_confidence = Int_zero,
         a_prediction = lit ''UNKNOWN''\<rparr>,
        \<lparr>a_status = Normal, a_is_normal = Some True, a_confidence = Round_percent 0.9,
         a_prediction = lit ''LABEL_0''\<rparr>]"
proof -
  let ?mf = "scripted_connector (Inr ()) (Inr [1, 2, 3]) (Inr three_messages)"
  let ?svc = "example_services ?mf (Some example_translation)"
  let ?pg = "\<lparr>p_total_emails = 3, p_total_pages = 1, p_start_idx = 0, p_end_idx = 10,
              p_page_email_ids = [3, 2, 1::nat]\<rparr>"
  have fetched: "page_fetched ?svc plain_request ?mf 1 10 [1, 2, 3] ?pg three_messages"
    by (simp add: page_fetched_def int_arg_def paginate_def py_slice_def example_defs)
  have keeps: "\<forall>ts d ov. translation_service ?svc = Some ts \<and> ts d = Inr ov \<longrightarrow>
                 e_analysis (ov d) = e_analysis d"
    by (auto simp: example_services_def example_translation_def)
  have boom: "has_content (message_with ''boom'')"
    and silent: "has_content (message_with ''silent'')"
    and hi: "has_content (message_with ''hi'')"
    by (simp_all add: has_content_def message_with_def lit_def)
  have mm: "model_manager ?svc = Some example_model"
    by (simp add: example_services_def)
  have b0: "fst (analyze_message ?svc (lit ''transformer'') (message_with ''boom'')) =
              \<lparr>a_status = Analiz_Hatasi, a_is_normal = None, a_confidence = Int_zero,
               a_prediction = lit ''ERROR''\<rparr>"
    using analysis_failure_is_contained
      [where email = "message_with ''boom''" and svc = ?svc and mm = example_model
         and sel = "lit ''transformer''" and e = "Raised (lit ''model failure'')"]
      boom mm
    by (simp add: dict_get_def message_with_def example_model_def lit_def)
  have b1: "fst (analyze_message ?svc (lit ''transformer'') (message_with ''silent'')) =
              \<lparr>a_status = Analiz_Edilemedi, a_is_normal = None, a_confidence = Int_zero,
               a_prediction = lit ''UNKNOWN''\<rparr>"
    using analysis_failure_is_contained
      [where email = "message_with ''silent''" and svc = ?svc and mm = example_model
         and sel = "lit ''transformer''"]
      silent mm
    by (simp add: dict_get_def message_with_def example_model_def lit_def)
  have b2: "fst (analyze_message ?svc (lit ''transformer'') (message_with ''hi'')) =
              \<lparr>a_status = Normal, a_is_normal = Some True, a_confidence = Round_percent 0.9,
               a_prediction = lit ''LABEL_0''\<rparr>"
    by (simp add: analyze_message_def has_content_def dict_get_def analysis_of_result_def
          nonempty_analysis_def Let_def normalize_batch_cases
          example_defs text_defs)
  have an: "e_analysis (fst (format_email ?svc (lit ''transformer'') 0 i email)) =
            fst (analyze_message ?svc (lit ''transformer'') email)" for i email
    using analysis_failure_is_contained
      [where svc = ?svc and sel = "lit ''transformer''" and start_idx = 0 and i = i
         and email = email] keeps
    by blast
  from analysis_failure_is_contained
      [where svc = ?svc and req = plain_request and mf = ?mf and page = 1 and per_page = 10
         and email_ids = "[1, 2, 3]" and pg = ?pg and emails = three_messages] fetched
  obtain env tr where
    r: "fetch_emails ?svc plain_request = ((Page_body env, 200), tr)"
    and len: "length (r_emails env) = length three_messages"
    and nth: "\<forall>j<length three_messages.
            r_emails env ! j =
              fst (format_email ?svc
                     (case model_arg plain_request of None \<Rightarrow> lit ''transformer'' | Some m \<Rightarrow> m)
                     (p_start_idx ?pg) j (three_messages ! j))"
    by blast
  have l3: "length (r_emails env) = 3" using len by (simp add: three_messages_def)
  have "map e_analysis (r_emails env) =
          [e_analysis (r_emails env ! 0), e_analysis (r_emails env ! 1),
           e_analysis (r_emails env ! 2)]"
  proof -
    from l3 obtain a b c where "r_emails env = [a, b, c]"
      by (auto simp: numeral_3_eq_3 length_Suc_conv)
    then show ?thesis by simp
  qed
  moreover have "r_emails env ! 0 =
      fst (format_email ?svc (lit ''transformer'') 0 0 (message_with ''boom''))"
    using nth by (simp add: three_messages_def plain_request_def)
  moreover have "r_emails env ! 1 =
      fst (format_email ?svc (lit ''transformer'') 0 1 (message_with ''silent''))"
    using nth by (simp add: three_messages_def plain_request_def)
  moreover have "r_emails env ! 2 =
      fst (format_email ?svc (lit ''transformer'') 0 2 (message_with ''hi''))"
    using nth by (simp add: three_messages_def plain_request_def)
  ultimately have fin: "map e_analysis (r_emails env) =
       [\<lparr>a_status = Analiz_Hatasi, a_is_normal = None, a_confidence = Int_zero,
         a_prediction = lit ''ERROR''\<rparr>,
        \<lparr>a_status = Analiz_Edilemedi, a_is_normal = None, a_confidence = Int_zero,
         a_prediction = lit ''UNKNOWN''\<rparr>,
        \<lparr>a_status = Normal, a_is_normal = Some True, a_confidence = Round_percent 0.9,
         a_prediction = lit ''LABEL_0''\<rparr>]"
    by (simp only: an b0 b1 b2)
  show ?thesis
    by (intro exI [of _ env] exI [of _ tr] conjI r fin)
qed

section \<open>The id of an entry\<close>

text \<open>
  Claim C8 says that the entry at offset \<open>i\<close> has \<^verbatim>\<open>id = start_index + i\<close> for the
  \<^verbatim>\<open>start_index\<close> of the same envelope. With one message and the default page, the only entry
  has id 0 and the envelope has \<^verbatim>\<open>start_index = 1\<close>.
\<close>

theorem entry_id_counterexample:
  "fetch_emails
     (example_services (scripted_connector (Inr ()) (Inr [7]) (Inr [message_with ''hi''])) None)
     plain_request =
     ((Page_body
         \<lparr>r_emails =
            [\<lparr>e_id = 0, e_subject = lit ''Teklif'', e_sender = lit ''Unknown Sender'',
              e_date = lit ''Unknown Date'', e_content = lit ''hi'', e_preview = lit ''hi'',
              e_analysis = \<lparr>a_status = Normal, a_is_normal = Some True, a_confidence = Round_percent 0.9,
                              a_prediction = lit ''LABEL_0''\<rparr>,
              e_extra = []\<rparr>],
          r_total_emails = 1, r_current_page = 1, r_total_pages = 1, r_per_page = 10,
          r_start_index = Some 1, r_end_index = Some 1,
          r_message = Emails_fetched_and_analyzed 1\<rparr>, 200),
      [Connect, Select_mailbox (lit ''INBOX''), Search_emails (lit ''ALL'') 30,
       Fetch_multiple_emails [7] 10, Disconnect,
       Model_analyze_email (lit ''hi'') (lit ''Teklif'') (lit ''transformer'')]) \<and>
   (0::int) \<noteq> 1 + 0"
  by (simp add: fetch_emails_def respond_page_def paginate_def py_slice_def int_arg_def
        format_email_def translate_message_def analyze_message_def has_content_def dict_get_def
        analysis_of_result_def nonempty_analysis_def Let_def normalize_batch_cases  example_defs text_defs)

text \<open>
  Claim C8, amended. The entry at offset \<open>i\<close> has \<^verbatim>\<open>id = (page - 1) * per_page + i\<close>, the
  0-based \<^verbatim>\<open>start_idx\<close> plus \<open>i\<close>, which is \<^verbatim>\<open>start_index - 1 + i\<close> for the \<^verbatim>\<open>start_index\<close> of
  the envelope; a translation overlay that replaces the \<^verbatim>\<open>id\<close> key is set apart.
\<close>

theorem entry_id_is_zero_based_offset:
  assumes "page_fetched svc req mf page per_page email_ids pg emails"
    and "\<forall>ts d ov. translation_service svc = Some ts \<and> ts d = Inr ov \<longrightarrow> e_id (ov d) = e_id d"
  shows "\<exists>env tr. fetch_emails svc req = ((Page_body env, 200), tr) \<and>
           length (r_emails env) = length emails \<and>
           r_start_index env = Some ((page - 1) * per_page + 1) \<and>
           (\<forall>i<length emails. e_id (r_emails env ! i) = (page - 1) * per_page + int i)"
proof -
  have s: "p_start_idx pg = (page - 1) * per_page"
    using assms(1) paginate_start_idx unfolding page_fetched_def by blast
  from fetch_emails_fetched [OF assms(1)] obtain env tr where
    r: "fetch_emails svc req = ((Page_body env, 200), tr)"
    and es: "r_emails env =
         map (\<lambda>k. fst (format_email svc
                (case model_arg req of None \<Rightarrow> lit ''transformer'' | Some m \<Rightarrow> m)
                (p_start_idx pg) k (emails ! k))) [0..<length emails]"
    and si: "r_start_index env = Some (p_start_idx pg + 1)"
    by blast
  have "e_id (r_emails env ! i) = (page - 1) * per_page + int i" if "i < length emails" for i
    using that by (simp add: es format_email_id [OF assms(2)] s)
  with r es si s show ?thesis by simp
qed

theorem entry_id_is_zero_based_offset_witness:
  "\<exists>env tr.
     fetch_emails
       (example_services
          (scripted_connector (Inr ()) (Inr ten_ids)
             (Inr [message_with ''hi'', message_with ''silent'']))
          (Some example_translation))
       second_page_request = ((Page_body env, 200), tr) \<and>
     length (r_emails env) = 2 \<and>
     r_start_index env = Some 3 \<and>
     e_id (r_emails env ! 0) = 2 \<and> e_id (r_emails env ! 1) = 3"
proof -
  let ?mf = "scripted_connector (Inr ()) (Inr ten_ids)
               (Inr [message_with ''hi'', message_with ''silent''])"
  let ?svc = "example_services ?mf (Some example_translation)"
  let ?pg = "\<lparr>p_total_emails = 10, p_total_pages = 5, p_start_idx = 2, p_end_idx = 4,
              p_page_email_ids = [8, 7::nat]\<rparr>"
  have fetched: "page_fetched ?svc second_page_request ?mf 2 2 ten_ids ?pg
                   [message_with ''hi'', message_with ''silent'']"
    by (simp add: page_fetched_def int_arg_def paginate_def py_slice_def example_defs
          second_page_request_def ten_ids_def)
  have keeps: "\<forall>ts d ov. translation_service ?svc = Some ts \<and> ts d = Inr ov \<longrightarrow>
                 e_id (ov d) = e_id d"
    by (auto simp: example_services_def example_translation_def)
  from entry_id_is_zero_based_offset [OF fetched keeps] obtain env tr where
    r: "fetch_emails ?svc second_page_request = ((Page_body env, 200), tr)"
    and len: "length (r_emails env) = length [message_with ''hi'', message_with ''silent'']"
    and si: "r_start_index env = Some ((2 - 1) * 2 + 1)"
    and ids: "\<forall>i<length [message_with ''hi'', message_with ''silent''].
                e_id (r_emails env ! i) = (2 - 1) * 2 + int i"
    by blast
  have l2: "length (r_emails env) = 2" using len by simp
  have s3: "r_start_index env = Some 3" using si by simp
  have i0: "e_id (r_emails env ! 0) = 2" using ids by simp
  have i1: "e_id (r_emails env ! 1) = 3" using ids by simp
  show ?thesis
    by (intro exI [of _ env] exI [of _ tr] conjI r l2 s3 i0 i1)
qed

section \<open>The normality flag\<close>

text \<open>
  Claim C10 says that \<^verbatim>\<open>is_normal\<close> is \<^verbatim>\<open>None\<close> exactly for the statuses \<^verbatim>\<open>Analiz Edilemedi\<close>
  and \<^verbatim>\<open>Analiz Hatasi\<close>. A token that is not a key of the table passes through the
  normalizer, so a model that returns the token \<^verbatim>\<open>Analiz Hatasi\<close> gives a block with that
  status and \<^verbatim>\<open>is_normal = False\<close>.
\<close>

theorem fallback_status_with_flag_counterexample:
  "analyze_message (example_services (scripted_connector (Inr ()) (Inr []) (Inr [])) None)
     (lit ''svm'') (message_with ''odd'') =
     (\<lparr>a_status = Analiz_Hatasi, a_is_normal = Some False, a_confidence = Round_percent 0.9,
       a_prediction = Analiz_Hatasi\<rparr>,
      [Model_analyze_email (lit ''odd'') (lit ''Teklif'') (lit ''svm'')]) \<and>
   Some False \<noteq> (None :: bool option)"
  by (simp add: analyze_message_def has_content_def dict_get_def analysis_of_result_def
        nonempty_analysis_def Let_def normalize_batch_cases
        example_defs text_defs)

text \<open>
  Claim C10, amended. In every analysis block of the batch endpoint, \<^verbatim>\<open>is_normal\<close> is \<^verbatim>\<open>True\<close>
  exactly when the status is \<^verbatim>\<open>Normal\<close>; it is \<^verbatim>\<open>None\<close> exactly in the three literal fallback
  blocks, which is exactly when the status is \<^verbatim>\<open>Analiz Edilemedi\<close> or \<^verbatim>\<open>Analiz Hatasi\<close> and the
  raw prediction is not one of these two strings itself; a block built from a truthy model
  result has the boolean \<^verbatim>\<open>status == 'Normal'\<close>. In every analysis body of the single-email
  endpoint \<^verbatim>\<open>is_normal\<close> is a boolean, true exactly when the status is \<^verbatim>\<open>Normal\<close>; a truthy
  result of the analyzer always gives such a body, and the status is one of the two fallback
  strings only when the raw prediction is that string.
\<close>

theorem is_normal_agrees_with_status:
  assumes "b = fst (analyze_message svc sel email)"
  shows
  "(a_is_normal b = Some True \<longleftrightarrow> a_status b = Normal) \<and>
   (a_is_normal b = None \<longleftrightarrow>
      a_status b \<in> {Analiz_Edilemedi, Analiz_Hatasi} \<and>
      a_prediction b \<notin> {Analiz_Edilemedi, Analiz_Hatasi}) \<and>
   (a_is_normal b = None \<longleftrightarrow>
      b \<in> {\<lparr>a_status = Analiz_Edilemedi, a_is_normal = None, a_confidence = Int_zero,
              a_prediction = lit ''UNKNOWN''\<rparr>,
            \<lparr>a_status = Analiz_Hatasi, a_is_normal = None, a_confidence = Int_zero,
              a_prediction = lit ''ERROR''\<rparr>,
            \<lparr>a_status = Analiz_Edilemedi, a_is_normal = None, a_confidence = Int_zero,
              a_prediction = lit ''NO_ANALYZER''\<rparr>}) \<and>
   (has_content email \<and> model_manager svc = Some mm \<and>
      mm (dict_get email (lit ''content'') []) (dict_get email (lit ''subject'') []) sel =
        Inr (Some res) \<and>
      nonempty_analysis res \<longrightarrow>
      a_prediction b = (case ra_prediction res of None \<Rightarrow> lit ''UNKNOWN'' | Some p \<Rightarrow> p) \<and>
      a_status b = normalize_batch (a_prediction b) \<and>
      a_is_normal b = Some (a_status b = Normal)) \<and>
   (analyze_email svc json now = (Analysis_body r, code) \<longrightarrow>
      (s_is_normal r \<longleftrightarrow> s_status r = Normal) \<and>
      (s_status r \<in> {Analiz_Edilemedi, Analiz_Hatasi} \<longrightarrow> s_prediction r = s_status r)) \<and>
   (mail_analyzer svc = Some ma \<and> json = Inr (Some data) \<and>
      map_of data (lit ''content'') = Some c \<and>
      ma c (dict_get data (lit ''subject'') []) = Inr (Some res') \<and>
      nonempty_analysis res' \<longrightarrow>
      (\<exists>r'. analyze_email svc json now = (Analysis_body r', 200) \<and>
         s_prediction r' =
           (case ra_prediction res' of None \<Rightarrow> lit ''UNKNOWN'' | Some p \<Rightarrow> p) \<and>
         s_status r' = normalize_single (s_prediction r') \<and>
         s_is_normal r' = (s_status r' = Normal)))"
proof -
  have cases: "b \<in> {block_unknown, block_error, block_no_analyzer} \<or>
               (\<exists>r. b = analysis_of_result r)"
    using analyze_message_cases [of svc sel email] assms by simp
  have A: "(a_is_normal b = Some True \<longleftrightarrow> a_status b = Normal) \<and>
     (a_is_normal b = None \<longleftrightarrow>
        a_status b \<in> {Analiz_Edilemedi, Analiz_Hatasi} \<and>
        a_prediction b \<notin> {Analiz_Edilemedi, Analiz_Hatasi})"
    using cases
  proof (elim disjE exE)
    assume "b \<in> {block_unknown, block_error, block_no_analyzer}"
    then show ?thesis by (rule fallback_block_flags)
  next
    fix r assume "b = analysis_of_result r"
    then show ?thesis by (rule computed_block_flags)
  qed
  have B: "a_is_normal b = None \<longleftrightarrow>
      b \<in> {\<lparr>a_status = Analiz_Edilemedi, a_is_normal = None, a_confidence = Int_zero,
              a_prediction = lit ''UNKNOWN''\<rparr>,
            \<lparr>a_status = Analiz_Hatasi, a_is_normal = None, a_confidence = Int_zero,
              a_prediction = lit ''ERROR''\<rparr>,
            \<lparr>a_status = Analiz_Edilemedi, a_is_normal = None, a_confidence = Int_zero,
              a_prediction = lit ''NO_ANALYZER''\<rparr>}"
    using null_only_in_fallback [OF assms]
    unfolding block_unknown_def block_error_def block_no_analyzer_def .
  have C: "has_content email \<and> model_manager svc = Some mm \<and>
      mm (dict_get email (lit ''content'') []) (dict_get email (lit ''subject'') []) sel =
        Inr (Some res) \<and>
      nonempty_analysis res \<longrightarrow>
      a_prediction b = (case ra_prediction res of None \<Rightarrow> lit ''UNKNOWN'' | Some p \<Rightarrow> p) \<and>
      a_status b = normalize_batch (a_prediction b) \<and>
      a_is_normal b = Some (a_status b = Normal)"
  proof (intro impI, elim conjE)
    assume h: "has_content email" "model_manager svc = Some mm"
      "mm (dict_get email (lit ''content'') []) (dict_get email (lit ''subject'') []) sel =
        Inr (Some res)"
      "nonempty_analysis res"
    have eq: "b = analysis_of_result res"
      unfolding assms by (rule analyze_message_truthy [OF h])
    show "a_prediction b = (case ra_prediction res of None \<Rightarrow> lit ''UNKNOWN'' | Some p \<Rightarrow> p) \<and>
      a_status b = normalize_batch (a_prediction b) \<and>
      a_is_normal b = Some (a_status b = Normal)"
      unfolding eq
      by (intro conjI computed_block computed_block_prediction)
  qed
  have D: "analyze_email svc json now = (Analysis_body r, code) \<longrightarrow>
      (s_is_normal r \<longleftrightarrow> s_status r = Normal) \<and>
      (s_status r \<in> {Analiz_Edilemedi, Analiz_Hatasi} \<longrightarrow> s_prediction r = s_status r)"
    by (intro impI) (rule single_flags)
  have E: "mail_analyzer svc = Some ma \<and> json = Inr (Some data) \<and>
      map_of data (lit ''content'') = Some c \<and>
      ma c (dict_get data (lit ''subject'') []) = Inr (Some res') \<and>
      nonempty_analysis res' \<longrightarrow>
      (\<exists>r'. analyze_email svc json now = (Analysis_body r', 200) \<and>
         s_prediction r' =
           (case ra_prediction res' of None \<Rightarrow> lit ''UNKNOWN'' | Some p \<Rightarrow> p) \<and>
         s_status r' = normalize_single (s_prediction r') \<and>
         s_is_normal r' = (s_status r' = Normal))"
  proof (intro impI, elim conjE)
    assume h: "mail_analyzer svc = Some ma" "json = Inr (Some data)"
      "map_of data (lit ''content'') = Some c"
      "ma c (dict_get data (lit ''subject'') []) = Inr (Some res')"
      "nonempty_analysis res'"
    show "\<exists>r'. analyze_email svc json now = (Analysis_body r', 200) \<and>
         s_prediction r' =
           (case ra_prediction res' of None \<Rightarrow> lit ''UNKNOWN'' | Some p \<Rightarrow> p) \<and>
         s_status r' = normalize_single (s_prediction r') \<and>
         s_is_normal r' = (s_status r' = Normal)"
      by (rule analyze_email_truthy [OF h])
  qed
  show ?thesis
    by (rule conjI [OF A [THEN conjunct1] conjI [OF A [THEN conjunct2]
          conjI [OF B conjI [OF C conjI [OF D E]]]]])
qed

theorem is_normal_agrees_with_status_witness:
  "fst (analyze_message
      (example_services (scripted_connector (Inr ()) (Inr []) (Inr [])) None)
      (lit ''svm'') (message_with ''bare'')) =
     \<lparr>a_status = lit ''UNKNOWN'', a_is_normal = Some False,
      a_confidence = Round_percent 0, a_prediction = lit ''UNKNOWN''\<rparr> \<and>
   analyze_email (example_services (scripted_connector (Inr ()) (Inr []) (Inr [])) None)
     (Inr (Some (message_with ''bare''))) (lit ''2024-01-01T00:00:00'') =
     (Analysis_body
        \<lparr>s_status = lit ''UNKNOWN'', s_is_normal = False, s_confidence = Round_percent 0,
         s_confidence_level = Dusuk, s_prediction = lit ''UNKNOWN'',
         s_analysis_time = lit ''2024-01-01T00:00:00'',
         s_message = Email_analizi_tamamlandi (lit ''UNKNOWN'')\<rparr>, 200) \<and>
   a_is_normal (fst (analyze_message
      (example_services (scripted_connector (Inr ()) (Inr []) (Inr [])) None)
      (lit ''svm'') (message_with ''boom''))) = None \<and>
   a_is_normal (fst (analyze_message
      (example_services (scripted_connector (Inr ()) (Inr []) (Inr [])) None)
      (lit ''svm'') (message_with ''hi''))) = Some True"
proof -
  let ?svc = "example_services (scripted_connector (Inr ()) (Inr []) (Inr [])) None"
  let ?ma = "\<lambda>content subject. example_model content subject (lit ''transformer'')"
  let ?res = "\<lparr>ra_prediction = None, ra_confidence = None,
               ra_other_keys = [lit ''model_used'']\<rparr>"
  let ?r = "\<lparr>s_status = lit ''UNKNOWN'', s_is_normal = False, s_confidence = Round_percent 0,
         s_confidence_level = Dusuk, s_prediction = lit ''UNKNOWN'',
         s_analysis_time = lit ''2024-01-01T00:00:00'',
         s_message = Email_analizi_tamamlandi (lit ''UNKNOWN'')\<rparr>"
  have single: "analyze_email ?svc (Inr (Some (message_with ''bare'')))
                  (lit ''2024-01-01T00:00:00'') = (Analysis_body ?r, 200)"
    by (simp add: analyze_email_def dict_get_def nonempty_analysis_def Let_def
          normalize_single_cases confidence_level_def example_defs text_defs)
  have bare: "fst (analyze_message ?svc (lit ''svm'') (message_with ''bare'')) =
     \<lparr>a_status = lit ''UNKNOWN'', a_is_normal = Some False,
      a_confidence = Round_percent 0, a_prediction = lit ''UNKNOWN''\<rparr>"
    by (simp add: analyze_message_def has_content_def dict_get_def analysis_of_result_def
          nonempty_analysis_def Let_def normalize_batch_cases example_defs text_defs)
  have boom: "fst (analyze_message ?svc (lit ''svm'') (message_with ''boom'')) = block_error"
    by (simp add: analyze_message_def has_content_def dict_get_def Let_def example_defs lit_def)
  have hi: "a_status (fst (analyze_message ?svc (lit ''svm'') (message_with ''hi''))) = Normal"
    by (simp add: analyze_message_def has_content_def dict_get_def analysis_of_result_def
          nonempty_analysis_def Let_def normalize_batch_cases example_defs text_defs)
  have hyp: "has_content (message_with ''bare'') \<and> model_manager ?svc = Some example_model \<and>
      example_model (dict_get (message_with ''bare'') (lit ''content'') [])
        (dict_get (message_with ''bare'') (lit ''subject'') []) (lit ''svm'') = Inr (Some ?res) \<and>
      nonempty_analysis ?res"
    by (simp add: has_content_def dict_get_def nonempty_analysis_def example_defs lit_def)
  have hyp2: "mail_analyzer ?svc = Some ?ma \<and>
      map_of (message_with ''bare'') (lit ''content'') = Some (lit ''bare'') \<and>
      ?ma (lit ''bare'') (dict_get (message_with ''bare'') (lit ''subject'') []) =
        Inr (Some ?res) \<and>
      nonempty_analysis ?res"
    by (simp add: dict_get_def nonempty_analysis_def example_defs lit_def)
  have null: "a_is_normal (fst (analyze_message ?svc (lit ''svm'') (message_with ''boom''))) = None"
    using is_normal_agrees_with_status
      [where svc = ?svc and sel = "lit ''svm''" and email = "message_with ''boom''", OF refl]
    by (simp add: boom block_error_def)
  have flag: "a_is_normal (fst (analyze_message ?svc (lit ''svm'') (message_with ''hi''))) =
                Some True"
    using is_normal_agrees_with_status
      [where svc = ?svc and sel = "lit ''svm''" and email = "message_with ''hi''", OF refl] hi
    by blast
  from is_normal_agrees_with_status
      [where svc = ?svc and sel = "lit ''svm''" and email = "message_with ''bare''"
         and mm = example_model and res = ?res and ma = ?ma
         and json = "Inr (Some (message_with ''bare''))" and data = "message_with ''bare''"
         and c = "lit ''bare''" and res' = ?res and now = "lit ''2024-01-01T00:00:00''",
       OF refl] hyp hyp2
  have "a_is_normal (fst (analyze_message ?svc (lit ''svm'') (message_with ''bare''))) \<noteq> None"
    by auto
  with bare single null flag show ?thesis by simp
qed

section \<open>The token normal on the two paths\<close>

text \<open>
  Claim C9 says that the batch path and the single-email path map every raw prediction token
  to the same label. The single-email table lacks the keys \<^verbatim>\<open>normal\<close> and \<^verbatim>\<open>anormal\<close> of the
  batch table: for an analyzer result with the token \<^verbatim>\<open>normal\<close>, \<^verbatim>\<open>analyze_email\<close> answers
  status \<^verbatim>\<open>normal\<close> with \<^verbatim>\<open>is_normal = False\<close>, while the batch path gives the same result the
  status \<^verbatim>\<open>Normal\<close> with \<^verbatim>\<open>is_normal = True\<close>.
\<close>

theorem single_path_misses_normal_token:
  "analyze_email (example_services (scripted_connector (Inr ()) (Inr []) (Inr [])) None)
     (Inr (Some (message_with ''plain''))) (lit ''2024-01-01T00:00:00'') =
     (Analysis_body
        \<lparr>s_status = lit ''normal'', s_is_normal = False, s_confidence = Round_percent 0.9,
         s_confidence_level = Yuksek, s_prediction = lit ''normal'',
         s_analysis_time = lit ''2024-01-01T00:00:00'',
         s_message = Email_analizi_tamamlandi (lit ''normal'')\<rparr>, 200) \<and>
   analyze_message (example_services (scripted_connector (Inr ()) (Inr []) (Inr [])) None)
     (lit ''transformer'') (message_with ''plain'') =
     (\<lparr>a_status = Normal, a_is_normal = Some True, a_confidence = Round_percent 0.9,
       a_prediction = lit ''normal''\<rparr>,
      [Model_analyze_email (lit ''plain'') (lit ''Teklif'') (lit ''transformer'')]) \<and>
   normalize_batch (lit ''normal'') = Normal \<and>
   normalize_single (lit ''normal'') = lit ''normal'' \<and>
   normalize_batch (lit ''anormal'') = Anormal \<and>
   normalize_single (lit ''anormal'') = lit ''anormal'' \<and>
   lit ''normal'' \<noteq> Normal"
  by (simp add: analyze_email_def analyze_message_def has_content_def dict_get_def
        analysis_of_result_def nonempty_analysis_def Let_def normalize_batch_cases
        normalize_single_cases confidence_level_def example_defs text_defs)

end
